theory Spec2Isabelle
  imports Main "HOL-Library.Word"
begin

section \<open>The platform the driver code runs on\<close>

text \<open>
  The sources use three macros of the PROS headers without defining them
  (\<^verbatim>\<open>pros/error.h\<close> and \<^verbatim>\<open>pros/rtos.h\<close> are not among them):
  \<^verbatim>\<open>PROS_ERR\<close>, \<^verbatim>\<open>TASK_PRIORITY_DEFAULT\<close> and \<^verbatim>\<open>TASK_STACK_DEPTH_DEFAULT\<close>.
  Their values are parameters of the model: every function that uses one takes this
  record, and every theorem holds for all values of its fields. The field types are
  those of the places the macros are passed to: \<^verbatim>\<open>std::int32_t\<close> results,
  a \<^verbatim>\<open>uint32_t\<close> priority and a \<^verbatim>\<open>uint16_t\<close> stack depth.
\<close>

type_synonym int32_t = "32 word"
type_synonym uint32_t = "32 word"
type_synonym uint16_t = "16 word"

record pros_macros =
  PROS_ERR :: int32_t
  TASK_PRIORITY_DEFAULT :: uint32_t
  TASK_STACK_DEPTH_DEFAULT :: uint16_t

subsection \<open>RTOS calls\<close>

text \<open>
  The task functions that \<^verbatim>\<open>src/Driver/opcontrol.cpp\<close> names. They are declared in
  the driver headers it includes; \<^verbatim>\<open>screenDrawTask\<close> occurs only in the line that is
  commented out.
\<close>

datatype task_fn_t = driverBaseControl | armP | monitorVisionTask | screenDrawTask

text \<open>The \<^verbatim>\<open>void*\<close> argument handed to a task.\<close>

datatype void_ptr = NULL | Ptr nat

text \<open>
  What the program does to the outside is the sequence of RTOS calls it makes. A
  \<^verbatim>\<open>Task\<close> object constructed with (function, parameters, prio, stack_depth, name)
  is one task creation; \<^verbatim>\<open>delay(ms)\<close> is one delay. The state threaded through the
  program is the log of the calls made so far, oldest first. Both calls come from the
  PROS kernel and are taken to hand control back to their caller.
\<close>

datatype rtos_call =
    is_TaskCreate: TaskCreate task_fn_t void_ptr uint32_t uint16_t string
  | is_Delay: Delay uint32_t

type_synonym rtos = "rtos_call list"

definition Task :: "task_fn_t \<Rightarrow> void_ptr \<Rightarrow> uint32_t \<Rightarrow> uint16_t \<Rightarrow> string \<Rightarrow> rtos \<Rightarrow> rtos" where
  "Task fn parameters prio stack_depth name s =
     s @ [TaskCreate fn parameters prio stack_depth name]"

definition delay :: "uint32_t \<Rightarrow> rtos \<Rightarrow> rtos" where
  "delay milliseconds s = s @ [Delay milliseconds]"

subsection \<open>opcontrol\<close>

text \<open>
  A \<^verbatim>\<open>while (c) { b }\<close> loop, run with fuel: one unit for each iteration. An
  execution that needs another iteration and has no fuel left is still \<open>Running\<close>;
  one whose condition is false has left the loop, which in \<^verbatim>\<open>opcontrol\<close> is the end
  of the function body, so it has \<open>Returned\<close>. Both carry the state reached.
\<close>

datatype 's outcome = is_Running: Running (state: 's) | is_Returned: Returned (state: 's)

fun while_loop :: "('s \<Rightarrow> bool) \<Rightarrow> ('s \<Rightarrow> 's) \<Rightarrow> nat \<Rightarrow> 's \<Rightarrow> 's outcome" where
  "while_loop c b 0 s = (if c s then Running s else Returned s)"
| "while_loop c b (Suc fuel) s = (if c s then while_loop c b fuel (b s) else Returned s)"

definition opcontrol :: "pros_macros \<Rightarrow> nat \<Rightarrow> rtos \<Rightarrow> rtos outcome" where
  "opcontrol K fuel s =
     (let driverBaseTask = Task driverBaseControl NULL (TASK_PRIORITY_DEFAULT K)
            (TASK_STACK_DEPTH_DEFAULT K) ''DriverBaseControl'' s;
          driverArmPTask = Task armP NULL (TASK_PRIORITY_DEFAULT K)
            (TASK_STACK_DEPTH_DEFAULT K) ''ArmP'' driverBaseTask;
          driverMonitorVisionTask = Task monitorVisionTask NULL (TASK_PRIORITY_DEFAULT K)
            (TASK_STACK_DEPTH_DEFAULT K) ''VisionPolling'' driverArmPTask
      in while_loop (\<lambda>_. True) (delay 100) fuel driverMonitorVisionTask)"

section \<open>The integrated encoder\<close>

text \<open>
  \<^verbatim>\<open>include/okapi/device/rotarysensor/integratedEncoder.hpp\<close> declares the class
  \<^verbatim>\<open>IntegratedEncoder\<close>: a constructor taking a \<^verbatim>\<open>pros::Motor\<close> by value, the one
  data member \<^verbatim>\<open>motor\<close>, and the methods \<^verbatim>\<open>get\<close>, \<^verbatim>\<open>reset\<close> and
  \<^verbatim>\<open>controllerGet\<close>. The bodies of the methods, the class \<^verbatim>\<open>pros::Motor\<close> and the
  motor behind it are not among the sources.
\<close>

text \<open>
  Modelled from the spec: the motor that a motor handle designates (the hardware and
  \<^verbatim>\<open>pros::Motor\<close> are missing). The spec's mock has an accumulated encoder position,
  and its queries and commands either succeed or fail; a mock that is \<open>ready\<close> is the
  spec's "idealized zero-ready mock".
\<close>

record mock_motor =
  position :: int32_t
  ready :: bool

text \<open>
  Modelled from the spec: motor handles are values of some type \<open>'m\<close>, and the
  state of the hardware gives the motor behind each handle.
\<close>

type_synonym 'm hardware = "'m \<Rightarrow> mock_motor"

text \<open>
  Modelled from the spec: the handle's "encoder-position query returning an integer or a
  reserved failure sentinel" (a method of the missing \<^verbatim>\<open>pros::Motor\<close>).
\<close>

definition get_position :: "pros_macros \<Rightarrow> 'm \<Rightarrow> 'm hardware \<Rightarrow> int32_t" where
  "get_position K m hw = (if ready (hw m) then position (hw m) else PROS_ERR K)"

text \<open>
  Modelled from the spec: the handle's "encoder-reset command returning a
  success/failure status" (a method of the missing \<^verbatim>\<open>pros::Motor\<close>): it "commands the
  underlying sensor to re-zero its accumulated position", and its status is the one the
  header documents for \<^verbatim>\<open>reset\<close>, "1 on suceess, PROS_ERR on fail". A command that
  fails leaves the position as it was.
\<close>

definition tare_position :: "pros_macros \<Rightarrow> 'm \<Rightarrow> 'm hardware \<Rightarrow> int32_t \<times> 'm hardware" where
  "tare_position K m hw =
     (if ready (hw m) then (1, hw(m := (hw m)\<lparr>position := 0\<rparr>)) else (PROS_ERR K, hw))"

text \<open>The class, with the data member the header declares.\<close>

record 'm IntegratedEncoder =
  motor :: 'm

text \<open>
  Modelled from the spec: the body of the constructor (missing): it "accepts one motor
  handle by value; stores it as the adapter's sole held reference".
\<close>

definition new_IntegratedEncoder :: "'m \<Rightarrow> 'm IntegratedEncoder" where
  "new_IntegratedEncoder imotor = \<lparr>motor = imotor\<rparr>"

text \<open>
  Modelled from the spec: the body of \<^verbatim>\<open>IntegratedEncoder::get\<close> (missing): it "forwards
  to the motor handle's built-in encoder-position query; returns its result (including
  its failure sentinel) unmodified". The method is \<^verbatim>\<open>const\<close> and only reads the
  hardware.
\<close>

definition get :: "pros_macros \<Rightarrow> 'm IntegratedEncoder \<Rightarrow> 'm hardware \<Rightarrow> int32_t" where
  "get K e hw = get_position K (motor e) hw"

text \<open>
  Modelled from the spec: the body of \<^verbatim>\<open>IntegratedEncoder::reset\<close> (missing): it
  "forwards to the motor handle's built-in encoder-zeroing command; returns its result
  unmodified". The method is \<^verbatim>\<open>const\<close>; it returns the status and the hardware as
  the command leaves it.
\<close>

definition reset :: "pros_macros \<Rightarrow> 'm IntegratedEncoder \<Rightarrow> 'm hardware \<Rightarrow> int32_t \<times> 'm hardware" where
  "reset K e hw = tare_position K (motor e) hw"

section \<open>Properties of opcontrol\<close>

lemma idle_loop_log:
  "while_loop (\<lambda>_. True) (delay ms) fuel s = Running (s @ replicate fuel (Delay ms))"
proof (induction fuel arbitrary: s)
  case 0
  show ?case by simp
next
  case (Suc fuel)
  have "while_loop (\<lambda>_. True) (delay ms) (Suc fuel) s =
        while_loop (\<lambda>_. True) (delay ms) fuel (s @ [Delay ms])"
    by (simp add: delay_def)
  also have "\<dots> = Running ((s @ [Delay ms]) @ replicate fuel (Delay ms))"
    by (rule Suc.IH)
  finally show ?case by simp
qed

lemma opcontrol_log:
  "opcontrol K fuel s =
     Running (s @
       [TaskCreate driverBaseControl NULL (TASK_PRIORITY_DEFAULT K)
          (TASK_STACK_DEPTH_DEFAULT K) ''DriverBaseControl'',
        TaskCreate armP NULL (TASK_PRIORITY_DEFAULT K) (TASK_STACK_DEPTH_DEFAULT K) ''ArmP'',
        TaskCreate monitorVisionTask NULL (TASK_PRIORITY_DEFAULT K)
          (TASK_STACK_DEPTH_DEFAULT K) ''VisionPolling''] @
       replicate fuel (Delay 100))"
  by (simp add: opcontrol_def Task_def idle_loop_log)

lemma filter_TaskCreate_replicate_Delay:
  "filter is_TaskCreate (replicate n (Delay ms)) = []"
  by (induction n) simp_all

text \<open>
  The definitions compute: two iterations of the idle loop, from an empty log, with the
  values PROS gives the macros.
\<close>

lemma opcontrol_two_iterations:
  "opcontrol \<lparr>PROS_ERR = 2147483647, TASK_PRIORITY_DEFAULT = 8,
      TASK_STACK_DEPTH_DEFAULT = 8192\<rparr> 2 [] =
   Running [TaskCreate driverBaseControl NULL 8 8192 ''DriverBaseControl'',
            TaskCreate armP NULL 8 8192 ''ArmP'',
            TaskCreate monitorVisionTask NULL 8 8192 ''VisionPolling'',
            Delay 100, Delay 100]"
  by (simp add: opcontrol_def Task_def delay_def numeral_2_eq_2)

text \<open>
  C9: \<^verbatim>\<open>opcontrol\<close> spawns exactly three background tasks and then idles. However
  much fuel the idle loop is given, the execution is still running and has not returned;
  the calls it has made, after those made before it started, are three task creations
  followed by delays only, one for each iteration; so the number of tasks created stays
  at three and no fourth task is ever launched.
\<close>

theorem opcontrol_spawns_three_then_idles:
  "is_Running (opcontrol K fuel s) \<and> \<not> is_Returned (opcontrol K fuel s) \<and>
   (\<exists>spawned. state (opcontrol K fuel s) = s @ spawned @ replicate fuel (Delay 100) \<and>
      length spawned = 3 \<and> filter is_TaskCreate spawned = spawned) \<and>
   length (filter is_TaskCreate (state (opcontrol K fuel s))) =
     length (filter is_TaskCreate s) + 3"
proof -
  let ?spawned =
    "[TaskCreate driverBaseControl NULL (TASK_PRIORITY_DEFAULT K)
        (TASK_STACK_DEPTH_DEFAULT K) ''DriverBaseControl'',
      TaskCreate armP NULL (TASK_PRIORITY_DEFAULT K) (TASK_STACK_DEPTH_DEFAULT K) ''ArmP'',
      TaskCreate monitorVisionTask NULL (TASK_PRIORITY_DEFAULT K)
        (TASK_STACK_DEPTH_DEFAULT K) ''VisionPolling'']"
  have run: "opcontrol K fuel s = Running (s @ ?spawned @ replicate fuel (Delay 100))"
    by (rule opcontrol_log)
  have "state (opcontrol K fuel s) = s @ ?spawned @ replicate fuel (Delay 100) \<and>
        length ?spawned = 3 \<and> filter is_TaskCreate ?spawned = ?spawned"
    by (simp add: run)
  then have ex: "\<exists>spawned. state (opcontrol K fuel s) = s @ spawned @ replicate fuel (Delay 100) \<and>
      length spawned = 3 \<and> filter is_TaskCreate spawned = spawned"
    by blast
  have count: "length (filter is_TaskCreate (state (opcontrol K fuel s))) =
      length (filter is_TaskCreate s) + 3"
    by (simp add: run filter_TaskCreate_replicate_Delay)
  from run ex count show ?thesis by simp
qed

text \<open>
  C10: \<^verbatim>\<open>opcontrol\<close> creates its three tasks in a fixed order: \<^verbatim>\<open>driverBaseControl\<close>
  named "DriverBaseControl", then \<^verbatim>\<open>armP\<close> named "ArmP", then \<^verbatim>\<open>monitorVisionTask\<close>
  named "VisionPolling", each with a NULL argument, the priority
  \<^verbatim>\<open>TASK_PRIORITY_DEFAULT\<close> and the stack depth \<^verbatim>\<open>TASK_STACK_DEPTH_DEFAULT\<close>; and each
  iteration of its idle loop adds the one call \<^verbatim>\<open>delay(100)\<close> to what the execution
  has done and nothing else.
\<close>

theorem opcontrol_calls_in_order:
  "opcontrol K fuel s =
     Running (s @
       [TaskCreate driverBaseControl NULL (TASK_PRIORITY_DEFAULT K)
          (TASK_STACK_DEPTH_DEFAULT K) ''DriverBaseControl'',
        TaskCreate armP NULL (TASK_PRIORITY_DEFAULT K) (TASK_STACK_DEPTH_DEFAULT K) ''ArmP'',
        TaskCreate monitorVisionTask NULL (TASK_PRIORITY_DEFAULT K)
          (TASK_STACK_DEPTH_DEFAULT K) ''VisionPolling''] @
       replicate fuel (Delay 100)) \<and>
   state (opcontrol K (Suc fuel) s) = state (opcontrol K fuel s) @ [Delay 100]"
proof
  show "opcontrol K fuel s =
     Running (s @
       [TaskCreate driverBaseControl NULL (TASK_PRIORITY_DEFAULT K)
          (TASK_STACK_DEPTH_DEFAULT K) ''DriverBaseControl'',
        TaskCreate armP NULL (TASK_PRIORITY_DEFAULT K) (TASK_STACK_DEPTH_DEFAULT K) ''ArmP'',
        TaskCreate monitorVisionTask NULL (TASK_PRIORITY_DEFAULT K)
          (TASK_STACK_DEPTH_DEFAULT K) ''VisionPolling''] @
       replicate fuel (Delay 100))"
    by (rule opcontrol_log)
next
  have "replicate (Suc fuel) (Delay 100 :: rtos_call) = replicate fuel (Delay 100) @ [Delay 100]"
    by (simp add: replicate_append_same)
  then show "state (opcontrol K (Suc fuel) s) = state (opcontrol K fuel s) @ [Delay 100]"
    by (simp only: opcontrol_log outcome.sel append_assoc)
qed

section \<open>Properties of the integrated encoder\<close>

lemma reset_ready:
  "ready (hw (motor e)) \<Longrightarrow>
   reset K e hw = (1, hw(motor e := (hw (motor e))\<lparr>position := 0\<rparr>))"
  by (simp add: reset_def tare_position_def)

lemma reset_not_ready: "\<not> ready (hw (motor e)) \<Longrightarrow> reset K e hw = (PROS_ERR K, hw)"
  by (simp add: reset_def tare_position_def)

text \<open>
  On a motor that fails its queries and commands the same two calls give the failure
  sentinel twice: the hypothesis of C6 is needed.
\<close>

lemma reset_then_get_not_ready:
  "\<not> ready (hw (motor e)) \<Longrightarrow>
   fst (reset K e hw) = PROS_ERR K \<and> get K e (snd (reset K e hw)) = PROS_ERR K"
  by (simp add: reset_not_ready get_def get_position_def)

text \<open>
  C6: for every motor handle whose motor is an idealized zero-ready mock, \<^verbatim>\<open>reset()\<close>
  followed immediately by \<^verbatim>\<open>get()\<close> on the same \<^verbatim>\<open>IntegratedEncoder\<close> returns the
  position the motor has after the reset, which is 0 (and the reset has reported
  success, 1).
\<close>

theorem reset_then_get_zero:
  assumes "ready (hw (motor e))"
  shows "fst (reset K e hw) = 1 \<and>
         get K e (snd (reset K e hw)) = position (snd (reset K e hw) (motor e)) \<and>
         get K e (snd (reset K e hw)) = 0"
  using assms by (simp add: reset_ready get_def get_position_def)

theorem reset_then_get_zero_witness:
  "ready \<lparr>position = 42, ready = True\<rparr> \<and>
   fst (reset \<lparr>PROS_ERR = 2147483647, TASK_PRIORITY_DEFAULT = 8, TASK_STACK_DEPTH_DEFAULT = 8192\<rparr>
          (new_IntegratedEncoder (1::nat)) (\<lambda>_. \<lparr>position = 42, ready = True\<rparr>)) = 1 \<and>
   get \<lparr>PROS_ERR = 2147483647, TASK_PRIORITY_DEFAULT = 8, TASK_STACK_DEPTH_DEFAULT = 8192\<rparr>
     (new_IntegratedEncoder (1::nat))
     (snd (reset \<lparr>PROS_ERR = 2147483647, TASK_PRIORITY_DEFAULT = 8, TASK_STACK_DEPTH_DEFAULT = 8192\<rparr>
          (new_IntegratedEncoder (1::nat)) (\<lambda>_. \<lparr>position = 42, ready = True\<rparr>))) = 0"
proof -
  have h: "ready \<lparr>position = 42, ready = True\<rparr>"
    by simp
  from reset_then_get_zero [of "\<lambda>_. \<lparr>position = 42, ready = True\<rparr>"
      "new_IntegratedEncoder (1::nat)"
      "\<lparr>PROS_ERR = 2147483647, TASK_PRIORITY_DEFAULT = 8, TASK_STACK_DEPTH_DEFAULT = 8192\<rparr>",
      OF h]
  show ?thesis
    using h by blast
qed

end
